theory Spec2Isabelle
  imports Complex_Main "HOL-Library.Word"
begin

section \<open>PSO for the H factor of an NMF: the model of \<open>pso_nmf.cpp\<close>\<close>

text \<open>
  The development follows \<^verbatim>\<open>src/libs/pso_nmf.cpp\<close>. Conventions of the embedding:

  \<^item> A C++ \<^verbatim>\<open>double\<close> is an exact \<^typ>\<open>real\<close>: rounding, overflow to infinity and
    NaN are not modelled. The one infinity the source writes down, the initial value of
    \<^verbatim>\<open>global_best_cost\<close>, is the constructor \<open>PInf\<close> of the type \<open>dbl_inf\<close>.
  \<^item> Array extents (\<^verbatim>\<open>gW\<close>, \<^verbatim>\<open>k\<close>, \<^verbatim>\<open>gX\<close>, \<^verbatim>\<open>s\<close>, \<^verbatim>\<open>dim\<close>) and loop
    counters are \<^typ>\<open>nat\<close>: the casts to \<^verbatim>\<open>int\<close> and the product \<^verbatim>\<open>k * s\<close> are taken
    not to overflow. \<^verbatim>\<open>population\<close> and \<^verbatim>\<open>max_iters\<close> are signed and stay \<^typ>\<open>int\<close>.
  \<^item> A numpy array handed over by pybind11 with the \<^verbatim>\<open>c_style\<close> flag is its shape and
    its buffer in C order (row-major, last index fastest). An \<^verbatim>\<open>Eigen::MatrixXd\<close> is its
    extents and its coefficients in Eigen's default storage order, column-major.
  \<^item> \<^verbatim>\<open>std::mt19937\<close> with the two \<^verbatim>\<open>std::uniform_real_distribution\<close> objects is a
    parameter: the seed determines a sequence \<open>u 0, u 1, \<dots>\<close> of canonical draws, the
    engine state is the number of draws consumed so far, and
    \<^verbatim>\<open>uniform_real_distribution(a, b)\<close> maps a canonical draw \<open>r\<close> to \<open>a + (b - a) * r\<close>.
  \<^item> Mutation of the local vectors is explicit state passing on the record \<open>swarm\<close>;
    \<^verbatim>\<open>py::print\<close> appends to the field \<open>out\<close>.
\<close>

subsection \<open>Configuration\<close>

record PSOConfig =
  population :: int
  max_iters :: int
  inertia :: real
  c1 :: real
  c2 :: real
  lb :: real
  ub :: real
  verbose :: bool
  seed :: "32 word"

text \<open>The default member initialisers of \<^verbatim>\<open>struct PSOConfig\<close>.\<close>

definition default_config :: PSOConfig where
  "default_config =
     \<lparr>population = 30, max_iters = 500, inertia = 729 / 1000,
      c1 = 149445 / 100000, c2 = 149445 / 100000, lb = 0, ub = 10,
      verbose = False, seed = 0\<rparr>"

text \<open>
  The two constructors. \<open>clock\<close> is the value of
  \<^verbatim>\<open>high_resolution_clock::now().time_since_epoch().count()\<close> after the cast to
  \<^verbatim>\<open>unsigned\<close>.
\<close>

definition PSO_default :: "32 word \<Rightarrow> PSOConfig" where
  "PSO_default clock = default_config\<lparr>seed := clock\<rparr>"

definition PSO_of_config :: "PSOConfig \<Rightarrow> 32 word \<Rightarrow> PSOConfig" where
  "PSO_of_config cfg clock = (if seed cfg = 0 then cfg\<lparr>seed := clock\<rparr> else cfg)"

definition set_population :: "int \<Rightarrow> PSOConfig \<Rightarrow> PSOConfig" where
  "set_population p cfg = cfg\<lparr>population := p\<rparr>"

definition set_max_iters :: "int \<Rightarrow> PSOConfig \<Rightarrow> PSOConfig" where
  "set_max_iters m cfg = cfg\<lparr>max_iters := m\<rparr>"

definition set_inertia :: "real \<Rightarrow> PSOConfig \<Rightarrow> PSOConfig" where
  "set_inertia w cfg = cfg\<lparr>inertia := w\<rparr>"

definition set_c1 :: "real \<Rightarrow> PSOConfig \<Rightarrow> PSOConfig" where
  "set_c1 x cfg = cfg\<lparr>c1 := x\<rparr>"

definition set_c2 :: "real \<Rightarrow> PSOConfig \<Rightarrow> PSOConfig" where
  "set_c2 x cfg = cfg\<lparr>c2 := x\<rparr>"

definition set_bounds :: "real \<Rightarrow> real \<Rightarrow> PSOConfig \<Rightarrow> PSOConfig" where
  "set_bounds l h cfg = cfg\<lparr>lb := l, ub := h\<rparr>"

definition set_verbose :: "bool \<Rightarrow> PSOConfig \<Rightarrow> PSOConfig" where
  "set_verbose v cfg = cfg\<lparr>verbose := v\<rparr>"

definition set_seed :: "32 word \<Rightarrow> PSOConfig \<Rightarrow> PSOConfig" where
  "set_seed x cfg = cfg\<lparr>seed := x\<rparr>"

subsection \<open>Arrays and matrices\<close>

text \<open>A C-contiguous numpy array of doubles: \<^verbatim>\<open>request()\<close> gives its shape and buffer.\<close>

record ndarray =
  shape :: "nat list"
  buf :: "real list"

definition ndarray_ok :: "ndarray \<Rightarrow> bool" where
  "ndarray_ok a \<longleftrightarrow> length (buf a) = prod_list (shape a)"

text \<open>Element \<open>(i, j)\<close> of a two-dimensional C-contiguous array, as numpy indexes it.\<close>

definition at2 :: "ndarray \<Rightarrow> nat \<Rightarrow> nat \<Rightarrow> real" where
  "at2 a i j = buf a ! (i * (shape a ! 1) + j)"

text \<open>\<^verbatim>\<open>Eigen::MatrixXd\<close>: coefficient \<open>(i, j)\<close> is stored at \<open>j * rows + i\<close>.\<close>

record matrix =
  rows :: nat
  cols :: nat
  coef :: "real list"

definition coeff :: "matrix \<Rightarrow> nat \<Rightarrow> nat \<Rightarrow> real" where
  "coeff M i j = coef M ! (j * rows M + i)"

definition set_coeff :: "matrix \<Rightarrow> nat \<Rightarrow> nat \<Rightarrow> real \<Rightarrow> matrix" where
  "set_coeff M i j v = M\<lparr>coef := (coef M)[j * rows M + i := v]\<rparr>"

definition Matrix_Zero :: "nat \<Rightarrow> nat \<Rightarrow> matrix" where
  "Matrix_Zero r c = \<lparr>rows = r, cols = c, coef = replicate (r * c) 0\<rparr>"

text \<open>\<^verbatim>\<open>Eigen::Map<const Matrix>(ptr, r, c)\<close> reads \<open>r * c\<close> doubles from \<open>ptr\<close> in column-major order.\<close>

definition Matrix_Map :: "real list \<Rightarrow> nat \<Rightarrow> nat \<Rightarrow> matrix" where
  "Matrix_Map ptr r c = \<lparr>rows = r, cols = c, coef = take (r * c) ptr\<rparr>"

definition mat_mul :: "matrix \<Rightarrow> matrix \<Rightarrow> matrix" where
  "mat_mul A B =
     \<lparr>rows = rows A, cols = cols B,
      coef = concat (map (\<lambda>j. map (\<lambda>i. \<Sum>l\<leftarrow>[0..<cols A]. coeff A i l * coeff B l j)
                                 [0..<rows A]) [0..<cols B])\<rparr>"

definition mat_sub :: "matrix \<Rightarrow> matrix \<Rightarrow> matrix" where
  "mat_sub A B = \<lparr>rows = rows A, cols = cols A, coef = map2 (-) (coef A) (coef B)\<rparr>"

definition squaredNorm :: "matrix \<Rightarrow> real" where
  "squaredNorm M = (\<Sum>x\<leftarrow>coef M. x * x)"

subsection \<open>The objective: the lambda \<open>eval_cost\<close>\<close>

text \<open>
  The lambda captures \<^verbatim>\<open>config_\<close>, \<^verbatim>\<open>W\<close>, \<^verbatim>\<open>X\<close>, \<^verbatim>\<open>k\<close> and \<^verbatim>\<open>s\<close> by reference; here they
  are arguments. The two nested loops fill \<open>H\<close> column by column.
\<close>

definition fill_H :: "PSOConfig \<Rightarrow> nat \<Rightarrow> nat \<Rightarrow> real list \<Rightarrow> matrix" where
  "fill_H cfg k s flatH =
     fold (\<lambda>j H. fold (\<lambda>i H.
             let v = flatH ! (j * k + i);
                 v = (if v < lb cfg then lb cfg else v)
             in set_coeff H i j v) [0..<k] H)
          [0..<s] (Matrix_Zero k s)"

definition eval_cost :: "PSOConfig \<Rightarrow> matrix \<Rightarrow> matrix \<Rightarrow> nat \<Rightarrow> nat \<Rightarrow> real list \<Rightarrow> real" where
  "eval_cost cfg W X k s flatH =
     (let H = fill_H cfg k s flatH;
          R = mat_sub X (mat_mul W H);
          f = squaredNorm R
      in f)"

subsection \<open>The swarm\<close>

datatype dbl_inf = Fin real | PInf

text \<open>\<open>f < g\<close> for a finite \<open>f\<close> and a \<open>g\<close> that may be \<^verbatim>\<open>infinity()\<close>.\<close>

fun lt_inf :: "real \<Rightarrow> dbl_inf \<Rightarrow> bool" where
  "lt_inf f PInf = True"
| "lt_inf f (Fin g) = (f < g)"

fun le_inf :: "dbl_inf \<Rightarrow> dbl_inf \<Rightarrow> bool" where
  "le_inf a PInf = True"
| "le_inf PInf (Fin g) = False"
| "le_inf (Fin f) (Fin g) = (f \<le> g)"

record swarm =
  pos :: "real list list"
  vel :: "real list list"
  pbest_pos :: "real list list"
  pbest_cost :: "real list"
  cost :: "real list"
  global_best_cost :: dbl_inf
  gbest_pos :: "real list"
  rng :: nat
  out :: "(nat \<times> dbl_inf) list"

text \<open>\<open>v[i][d] = x\<close> on a vector of vectors.\<close>

definition upd2 :: "real list list \<Rightarrow> nat \<Rightarrow> nat \<Rightarrow> real \<Rightarrow> real list list" where
  "upd2 v i d x = v[i := (v ! i)[d := x]]"

text \<open>One call of a distribution on the engine: the next canonical draw, scaled.\<close>

definition unif01 :: "(nat \<Rightarrow> real) \<Rightarrow> swarm \<Rightarrow> real \<times> swarm" where
  "unif01 u st = (0 + (1 - 0) * u (rng st), st\<lparr>rng := Suc (rng st)\<rparr>)"

definition initDist :: "PSOConfig \<Rightarrow> (nat \<Rightarrow> real) \<Rightarrow> swarm \<Rightarrow> real \<times> swarm" where
  "initDist cfg u st = (lb cfg + (ub cfg - lb cfg) * u (rng st), st\<lparr>rng := Suc (rng st)\<rparr>)"

text \<open>The vectors as allocated before the first loop, the engine freshly seeded.\<close>

definition alloc :: "nat \<Rightarrow> nat \<Rightarrow> swarm" where
  "alloc pop dm =
     \<lparr>pos = replicate pop (replicate dm 0),
      vel = replicate pop (replicate dm 0),
      pbest_pos = replicate pop (replicate dm 0),
      pbest_cost = replicate pop 0,
      cost = replicate pop 0,
      global_best_cost = PInf,
      gbest_pos = replicate dm 0,
      rng = 0,
      out = []\<rparr>"

text \<open>
  The body of the loop over \<open>d\<close> in the initialisation. The two draws of
  \<^verbatim>\<open>initDist(rng) - initDist(rng)\<close> are taken left operand first.
\<close>

definition init_dim :: "PSOConfig \<Rightarrow> (nat \<Rightarrow> real) \<Rightarrow> nat \<Rightarrow> nat \<Rightarrow> swarm \<Rightarrow> swarm" where
  "init_dim cfg u i d st0 =
     (let (x, st1) = initDist cfg u st0;
          st2 = st1\<lparr>pos := upd2 (pos st1) i d x\<rparr>;
          (a, st3) = initDist cfg u st2;
          (b, st4) = initDist cfg u st3;
          st5 = st4\<lparr>vel := upd2 (vel st4) i d ((a - b) * (1 / 10))\<rparr>
      in st5\<lparr>pbest_pos := upd2 (pbest_pos st5) i d (pos st5 ! i ! d)\<rparr>)"

text \<open>The statements after the loop over \<open>d\<close>: the cost of the fresh particle.\<close>

definition init_eval ::
  "PSOConfig \<Rightarrow> matrix \<Rightarrow> matrix \<Rightarrow> nat \<Rightarrow> nat \<Rightarrow> nat \<Rightarrow> swarm \<Rightarrow> swarm" where
  "init_eval cfg W X k s i st1 =
     (let st2 = st1\<lparr>pbest_cost := (pbest_cost st1)[i := eval_cost cfg W X k s (pos st1 ! i)]\<rparr>;
          st3 = st2\<lparr>cost := (cost st2)[i := pbest_cost st2 ! i]\<rparr>
      in if lt_inf (pbest_cost st3 ! i) (global_best_cost st3)
         then st3\<lparr>global_best_cost := Fin (pbest_cost st3 ! i), gbest_pos := pbest_pos st3 ! i\<rparr>
         else st3)"

definition init_particle ::
  "PSOConfig \<Rightarrow> matrix \<Rightarrow> matrix \<Rightarrow> nat \<Rightarrow> nat \<Rightarrow> (nat \<Rightarrow> real) \<Rightarrow> nat \<Rightarrow> swarm \<Rightarrow> swarm" where
  "init_particle cfg W X k s u i st0 =
     init_eval cfg W X k s i (fold (init_dim cfg u i) [0..<k * s] st0)"

text \<open>The body of the loop over \<open>d\<close> in the PSO loop.\<close>

definition update_dim :: "PSOConfig \<Rightarrow> (nat \<Rightarrow> real) \<Rightarrow> nat \<Rightarrow> nat \<Rightarrow> swarm \<Rightarrow> swarm" where
  "update_dim cfg u i d st0 =
     (let (r1, st1) = unif01 u st0;
          (r2, st2) = unif01 u st1;
          st3 = st2\<lparr>vel := upd2 (vel st2) i d
                  (inertia cfg * (vel st2 ! i ! d)
                   + c1 cfg * r1 * (pbest_pos st2 ! i ! d - pos st2 ! i ! d)
                   + c2 cfg * r2 * (gbest_pos st2 ! d - pos st2 ! i ! d))\<rparr>;
          st4 = st3\<lparr>pos := upd2 (pos st3) i d (pos st3 ! i ! d + vel st3 ! i ! d)\<rparr>;
          st5 = (if pos st4 ! i ! d < lb cfg then st4\<lparr>pos := upd2 (pos st4) i d (lb cfg)\<rparr> else st4);
          st6 = (if pos st5 ! i ! d > ub cfg then st5\<lparr>pos := upd2 (pos st5) i d (ub cfg)\<rparr> else st5)
      in st6)"

text \<open>The statements after the loop over \<open>d\<close>: evaluation and the two bests.\<close>

definition update_eval ::
  "PSOConfig \<Rightarrow> matrix \<Rightarrow> matrix \<Rightarrow> nat \<Rightarrow> nat \<Rightarrow> nat \<Rightarrow> swarm \<Rightarrow> swarm" where
  "update_eval cfg W X k s i st1 =
     (let f = eval_cost cfg W X k s (pos st1 ! i);
          st2 = st1\<lparr>cost := (cost st1)[i := f]\<rparr>
      in if f < pbest_cost st2 ! i
         then (let st3 = st2\<lparr>pbest_cost := (pbest_cost st2)[i := f]\<rparr>;
                   st4 = st3\<lparr>pbest_pos := (pbest_pos st3)[i := pos st3 ! i]\<rparr>
               in if lt_inf f (global_best_cost st4)
                  then st4\<lparr>global_best_cost := Fin f, gbest_pos := pos st4 ! i\<rparr>
                  else st4)
         else st2)"

definition update_particle ::
  "PSOConfig \<Rightarrow> matrix \<Rightarrow> matrix \<Rightarrow> nat \<Rightarrow> nat \<Rightarrow> (nat \<Rightarrow> real) \<Rightarrow> nat \<Rightarrow> swarm \<Rightarrow> swarm" where
  "update_particle cfg W X k s u i st0 =
     update_eval cfg W X k s i (fold (update_dim cfg u i) [0..<k * s] st0)"

text \<open>The progress line at the end of an iteration.\<close>

definition report :: "PSOConfig \<Rightarrow> nat \<Rightarrow> swarm \<Rightarrow> swarm" where
  "report cfg iter st =
     (if verbose cfg \<and> (iter mod 50 = 0 \<or> int iter = max_iters cfg - 1)
      then st\<lparr>out := out st @ [(iter, global_best_cost st)]\<rparr>
      else st)"

definition init_swarm ::
  "PSOConfig \<Rightarrow> matrix \<Rightarrow> matrix \<Rightarrow> nat \<Rightarrow> nat \<Rightarrow> (nat \<Rightarrow> real) \<Rightarrow> nat \<Rightarrow> swarm \<Rightarrow> swarm" where
  "init_swarm cfg W X k s u pop st = fold (init_particle cfg W X k s u) [0..<pop] st"

definition iteration ::
  "PSOConfig \<Rightarrow> matrix \<Rightarrow> matrix \<Rightarrow> nat \<Rightarrow> nat \<Rightarrow> (nat \<Rightarrow> real) \<Rightarrow> nat \<Rightarrow> nat \<Rightarrow> swarm \<Rightarrow> swarm" where
  "iteration cfg W X k s u pop iter st =
     report cfg iter (fold (update_particle cfg W X k s u) [0..<pop] st)"

definition pso_loop ::
  "PSOConfig \<Rightarrow> matrix \<Rightarrow> matrix \<Rightarrow> nat \<Rightarrow> nat \<Rightarrow> (nat \<Rightarrow> real) \<Rightarrow> nat \<Rightarrow> swarm \<Rightarrow> swarm" where
  "pso_loop cfg W X k s u pop st =
     fold (iteration cfg W X k s u pop) [0..<nat (max_iters cfg)] st"

subsection \<open>Result extraction and \<open>fit\<close>\<close>

text \<open>
  \<^verbatim>\<open>py::array_t<double> H_out({k, s})\<close> is a fresh C-contiguous array of shape \<open>(k, s)\<close>;
  every cell of its buffer is written by the two loops that follow.
\<close>

definition build_H :: "nat \<Rightarrow> nat \<Rightarrow> real list \<Rightarrow> ndarray" where
  "build_H k s gbest =
     \<lparr>shape = [k, s],
      buf = fold (\<lambda>j ptrH. fold (\<lambda>i ptrH. ptrH[j * k + i := gbest ! (j * k + i)]) [0..<k] ptrH)
                 [0..<s] (replicate (k * s) 0)\<rparr>"

datatype error = RuntimeError string

definition effective_pop :: "PSOConfig \<Rightarrow> nat" where
  "effective_pop cfg = nat (if population cfg < 2 then 2 else population cfg)"

text \<open>
  \<open>fit_run\<close> is \<^verbatim>\<open>PSO::fit\<close> up to the end of the PSO loop: it returns the error
  thrown, or the local state. \<open>mt\<close> is the engine: the draws that a seed determines.
\<close>

definition fit_run ::
  "(32 word \<Rightarrow> nat \<Rightarrow> real) \<Rightarrow> PSOConfig \<Rightarrow> ndarray \<Rightarrow> ndarray \<Rightarrow> error + swarm" where
  "fit_run mt cfg W_np X_np =
     (if length (shape W_np) \<noteq> 2 \<or> length (shape X_np) \<noteq> 2
      then Inl (RuntimeError ''W and X must be 2-D arrays'')
      else
        let gW = shape W_np ! 0; k = shape W_np ! 1;
            gX = shape X_np ! 0; s = shape X_np ! 1
        in if gW \<noteq> gX
           then Inl (RuntimeError ''W and X must have same number of rows (features)'')
           else
             let W = Matrix_Map (buf W_np) gW k;
                 X = Matrix_Map (buf X_np) gX s;
                 dm = k * s;
                 pop = effective_pop cfg;
                 u = mt (seed cfg);
                 st0 = alloc pop dm;
                 st1 = init_swarm cfg W X k s u pop st0;
                 st2 = pso_loop cfg W X k s u pop st1
             in Inr st2)"

definition fit ::
  "(32 word \<Rightarrow> nat \<Rightarrow> real) \<Rightarrow> PSOConfig \<Rightarrow> ndarray \<Rightarrow> ndarray \<Rightarrow> error + ndarray" where
  "fit mt cfg W_np X_np =
     (case fit_run mt cfg W_np X_np of
        Inl e \<Rightarrow> Inl e
      | Inr st \<Rightarrow> Inr (build_H (shape W_np ! 1) (shape X_np ! 1) (gbest_pos st)))"

subsection \<open>The steps of one run, in order\<close>

text \<open>
  One step is one execution of a loop body over \<open>d\<close>, or the statements that follow
  such a loop for one particle, or the progress line of one iteration. \<open>steps\<close> lists
  them in the order in which \<^verbatim>\<open>fit\<close> executes them; \<open>state_after\<close> is the local
  state after the first \<open>n\<close> of them.
\<close>

datatype step =
  InitDim nat nat | InitEval nat | UpdateDim nat nat | UpdateEval nat | Report nat

fun exec ::
  "PSOConfig \<Rightarrow> matrix \<Rightarrow> matrix \<Rightarrow> nat \<Rightarrow> nat \<Rightarrow> (nat \<Rightarrow> real) \<Rightarrow> step \<Rightarrow> swarm \<Rightarrow> swarm" where
  "exec cfg W X k s u (InitDim i d) = init_dim cfg u i d"
| "exec cfg W X k s u (InitEval i) = init_eval cfg W X k s i"
| "exec cfg W X k s u (UpdateDim i d) = update_dim cfg u i d"
| "exec cfg W X k s u (UpdateEval i) = update_eval cfg W X k s i"
| "exec cfg W X k s u (Report iter) = report cfg iter"

definition init_steps :: "nat \<Rightarrow> nat \<Rightarrow> step list" where
  "init_steps pop dm = concat (map (\<lambda>i. map (InitDim i) [0..<dm] @ [InitEval i]) [0..<pop])"

definition round_steps :: "nat \<Rightarrow> nat \<Rightarrow> nat \<Rightarrow> step list" where
  "round_steps pop dm iter =
     concat (map (\<lambda>i. map (UpdateDim i) [0..<dm] @ [UpdateEval i]) [0..<pop]) @ [Report iter]"

definition loop_steps :: "nat \<Rightarrow> nat \<Rightarrow> nat \<Rightarrow> step list" where
  "loop_steps pop dm iters = concat (map (round_steps pop dm) [0..<iters])"

definition steps :: "nat \<Rightarrow> nat \<Rightarrow> nat \<Rightarrow> step list" where
  "steps pop dm iters = init_steps pop dm @ loop_steps pop dm iters"

definition state_after ::
  "PSOConfig \<Rightarrow> matrix \<Rightarrow> matrix \<Rightarrow> nat \<Rightarrow> nat \<Rightarrow> (nat \<Rightarrow> real) \<Rightarrow> nat \<Rightarrow> swarm" where
  "state_after cfg W X k s u n =
     fold (exec cfg W X k s u)
       (take n (steps (effective_pop cfg) (k * s) (nat (max_iters cfg))))
       (alloc (effective_pop cfg) (k * s))"

subsection \<open>Shapes of the local vectors\<close>

definition wf_swarm :: "nat \<Rightarrow> nat \<Rightarrow> swarm \<Rightarrow> bool" where
  "wf_swarm pop dm st \<longleftrightarrow>
     length (pos st) = pop \<and> (\<forall>i<pop. length (pos st ! i) = dm) \<and>
     length (vel st) = pop \<and> (\<forall>i<pop. length (vel st ! i) = dm) \<and>
     length (pbest_pos st) = pop \<and> (\<forall>i<pop. length (pbest_pos st ! i) = dm) \<and>
     length (pbest_cost st) = pop \<and> length (cost st) = pop \<and>
     length (gbest_pos st) = dm"

subsection \<open>What \<open>fit\<close> reads of the configuration\<close>

definition same_params :: "PSOConfig \<Rightarrow> PSOConfig \<Rightarrow> bool" where
  "same_params cfg cfg' \<longleftrightarrow>
     max_iters cfg = max_iters cfg' \<and> inertia cfg = inertia cfg' \<and>
     c1 cfg = c1 cfg' \<and> c2 cfg = c2 cfg' \<and> lb cfg = lb cfg' \<and> ub cfg = ub cfg'"

subsection \<open>The loops over the dimensions, in closed form\<close>

text \<open>
  The value drawn for \<open>pos[i][d]\<close> and the one computed for \<open>vel[i][d]\<close> when the
  initialisation of a particle starts with \<open>r\<close> draws consumed.
\<close>

definition init_pos_from :: "PSOConfig \<Rightarrow> (nat \<Rightarrow> real) \<Rightarrow> nat \<Rightarrow> nat \<Rightarrow> real" where
  "init_pos_from cfg u r d = lb cfg + (ub cfg - lb cfg) * u (r + 3 * d)"

definition init_vel_from :: "PSOConfig \<Rightarrow> (nat \<Rightarrow> real) \<Rightarrow> nat \<Rightarrow> nat \<Rightarrow> real" where
  "init_vel_from cfg u r d =
     (lb cfg + (ub cfg - lb cfg) * u (r + 3 * d + 1)
      - (lb cfg + (ub cfg - lb cfg) * u (r + 3 * d + 2))) * (1 / 10)"


text \<open>
  The update rule as the specification writes it, for dimension \<open>d\<close> of particle \<open>i\<close>
  in a round of that particle that starts in state \<open>st\<close>: the draws \<open>r1\<close>, \<open>r2\<close> are
  the draws number \<open>2 * d\<close> and \<open>2 * d + 1\<close> after those already consumed.
\<close>

definition new_vel :: "PSOConfig \<Rightarrow> (nat \<Rightarrow> real) \<Rightarrow> swarm \<Rightarrow> nat \<Rightarrow> nat \<Rightarrow> real" where
  "new_vel cfg u st i d =
     inertia cfg * (vel st ! i ! d)
     + c1 cfg * u (rng st + 2 * d) * (pbest_pos st ! i ! d - pos st ! i ! d)
     + c2 cfg * u (rng st + 2 * d + 1) * (gbest_pos st ! d - pos st ! i ! d)"

definition new_pos :: "PSOConfig \<Rightarrow> (nat \<Rightarrow> real) \<Rightarrow> swarm \<Rightarrow> nat \<Rightarrow> nat \<Rightarrow> real" where
  "new_pos cfg u st i d = min (ub cfg) (max (lb cfg) (pos st ! i ! d + new_vel cfg u st i d))"

definition update_dims :: "PSOConfig \<Rightarrow> (nat \<Rightarrow> real) \<Rightarrow> nat \<Rightarrow> nat \<Rightarrow> nat \<Rightarrow> swarm \<Rightarrow> swarm" where
  "update_dims cfg u dm i n st =
     st\<lparr>vel := (vel st)[i := map (\<lambda>d. if d < n then new_vel cfg u st i d
                                      else vel st ! i ! d) [0..<dm]],
        pos := (pos st)[i := map (\<lambda>d. if d < n then new_pos cfg u st i d
                                      else pos st ! i ! d) [0..<dm]],
        rng := rng st + 2 * n\<rparr>"

subsection \<open>Runs of \<open>fit\<close> on valid input\<close>

text \<open>The steps that occur in a run address particles below \<open>pop\<close> and dimensions below \<open>dm\<close>.\<close>

fun step_ok :: "nat \<Rightarrow> nat \<Rightarrow> step \<Rightarrow> bool" where
  "step_ok pop dm (InitDim i d) = (i < pop \<and> d < dm)"
| "step_ok pop dm (InitEval i) = (i < pop)"
| "step_ok pop dm (UpdateDim i d) = (i < pop \<and> d < dm)"
| "step_ok pop dm (UpdateEval i) = (i < pop)"
| "step_ok pop dm (Report iter) = True"

text \<open>A step of the PSO loop, as opposed to one of the initialisation.\<close>

fun loop_step :: "step \<Rightarrow> bool" where
  "loop_step (InitDim i d) = False"
| "loop_step (InitEval i) = False"
| "loop_step (UpdateDim i d) = True"
| "loop_step (UpdateEval i) = True"
| "loop_step (Report iter) = True"

text \<open>The input that passes the two checks at the head of \<open>fit\<close>.\<close>

definition valid_input :: "ndarray \<Rightarrow> ndarray \<Rightarrow> bool" where
  "valid_input W_np X_np \<longleftrightarrow>
     length (shape W_np) = 2 \<and> length (shape X_np) = 2 \<and> shape W_np ! 0 = shape X_np ! 0"

text \<open>
  The local state of \<open>fit mt cfg W_np X_np\<close> after its first \<open>n\<close> steps, the number of
  steps of the initialisation and the number of steps of the whole run.
\<close>

definition run_state ::
  "(32 word \<Rightarrow> nat \<Rightarrow> real) \<Rightarrow> PSOConfig \<Rightarrow> ndarray \<Rightarrow> ndarray \<Rightarrow> nat \<Rightarrow> swarm" where
  "run_state mt cfg W_np X_np n =
     state_after cfg (Matrix_Map (buf W_np) (shape W_np ! 0) (shape W_np ! 1))
       (Matrix_Map (buf X_np) (shape X_np ! 0) (shape X_np ! 1))
       (shape W_np ! 1) (shape X_np ! 1) (mt (seed cfg)) n"


definition run_length :: "PSOConfig \<Rightarrow> ndarray \<Rightarrow> ndarray \<Rightarrow> nat" where
  "run_length cfg W_np X_np =
     length (steps (effective_pop cfg) (shape W_np ! 1 * shape X_np ! 1) (nat (max_iters cfg)))"

subsection \<open>Invariants of the swarm\<close>





subsection \<open>The initial swarm, in closed form\<close>

text \<open>
  Particle \<open>i\<close> is initialised with \<open>3 * (i * dm)\<close> draws consumed; its cost is that of
  its position. \<open>first_min c n b\<close>: among the first \<open>n\<close> particles, \<open>b\<close> is the first in
  scan order whose cost \<open>c\<close> is the least.
\<close>

definition init_position :: "PSOConfig \<Rightarrow> (nat \<Rightarrow> real) \<Rightarrow> nat \<Rightarrow> nat \<Rightarrow> real list" where
  "init_position cfg u dm i = map (init_pos_from cfg u (3 * (i * dm))) [0..<dm]"

definition init_velocity :: "PSOConfig \<Rightarrow> (nat \<Rightarrow> real) \<Rightarrow> nat \<Rightarrow> nat \<Rightarrow> real list" where
  "init_velocity cfg u dm i = map (init_vel_from cfg u (3 * (i * dm))) [0..<dm]"




subsection \<open>A small run, for concrete instances\<close>

text \<open>
  An engine whose draws cycle through \<open>0, 1/7, \<dots>, 6/7\<close>, a configuration with two
  particles and one iteration, and a \<open>1 \<times> 2\<close> array \<open>W\<close> with a \<open>1 \<times> 3\<close> array \<open>X\<close>, so that
  \<open>k = 2\<close>, \<open>s = 3\<close> and the search space has six dimensions.
\<close>

definition ex_mt :: "32 word \<Rightarrow> nat \<Rightarrow> real" where
  "ex_mt sd n = real (n mod 7) / 7"

definition ex_cfg :: PSOConfig where
  "ex_cfg = default_config\<lparr>population := 2, max_iters := 1, seed := 1\<rparr>"

definition ex_W :: ndarray where
  "ex_W = \<lparr>shape = [1, 2], buf = [1, 1]\<rparr>"

definition ex_X :: ndarray where
  "ex_X = \<lparr>shape = [1, 3], buf = [1, 1, 1]\<rparr>"

text \<open>The smallest problem: \<open>W = [[1]]\<close>, \<open>X = [[2]]\<close>, one dimension.\<close>

definition tiny_W :: ndarray where
  "tiny_W = \<lparr>shape = [1, 1], buf = [1]\<rparr>"

definition tiny_X :: ndarray where
  "tiny_X = \<lparr>shape = [1, 1], buf = [2]\<rparr>"

subsection \<open>The state without the progress lines\<close>

definition mute :: "swarm \<Rightarrow> swarm" where
  "mute st = st\<lparr>out := []\<rparr>"

subsection \<open>One round of the optimizer loop, as the specification describes it\<close>

text \<open>
  After all dimensions of particle \<open>i\<close> are updated: evaluate its cost; on improvement of
  the personal best cost update the personal best; if the cost also improves on the global
  best cost, update the global best.
\<close>

definition track_best ::
  "PSOConfig \<Rightarrow> matrix \<Rightarrow> matrix \<Rightarrow> nat \<Rightarrow> nat \<Rightarrow> nat \<Rightarrow> swarm \<Rightarrow> swarm" where
  "track_best cfg W X k s i st =
     (let f = eval_cost cfg W X k s (pos st ! i);
          better = (f < pbest_cost st ! i);
          best = (better \<and> lt_inf f (global_best_cost st))
      in st\<lparr>cost := (cost st)[i := f],
            pbest_cost := (if better then (pbest_cost st)[i := f] else pbest_cost st),
            pbest_pos := (if better then (pbest_pos st)[i := pos st ! i] else pbest_pos st),
            global_best_cost := (if best then Fin f else global_best_cost st),
            gbest_pos := (if best then pos st ! i else gbest_pos st)\<rparr>)"

text \<open>
  Particle \<open>i\<close> in a round: every dimension by the update rule (\<open>update_dims\<close> with
  \<open>new_vel\<close> and \<open>new_pos\<close>), then the evaluation.
\<close>

definition spec_particle ::
  "PSOConfig \<Rightarrow> matrix \<Rightarrow> matrix \<Rightarrow> nat \<Rightarrow> nat \<Rightarrow> (nat \<Rightarrow> real) \<Rightarrow> nat \<Rightarrow> swarm \<Rightarrow> swarm" where
  "spec_particle cfg W X k s u i st =
     track_best cfg W X k s i (update_dims cfg u (k * s) i (k * s) st)"

text \<open>The particles of a round one after the other, each starting from the state the previous one left.\<close>

primrec spec_round ::
  "PSOConfig \<Rightarrow> matrix \<Rightarrow> matrix \<Rightarrow> nat \<Rightarrow> nat \<Rightarrow> (nat \<Rightarrow> real) \<Rightarrow> nat list \<Rightarrow> swarm \<Rightarrow> swarm" where
  "spec_round cfg W X k s u [] st = st"
| "spec_round cfg W X k s u (i # is) st =
     spec_round cfg W X k s u is (spec_particle cfg W X k s u i st)"

text \<open>
  The state of the run of \<open>fit ex_mt ex_cfg tiny_W tiny_X\<close> when particle 0 has been
  updated and evaluated in the only iteration and particle 1 is about to be.
\<close>

definition ex_state :: swarm where
  "ex_state =
     \<lparr>pos = [[0], [30 / 7]], vel = [[- (729 / 7000)], [- (1 / 7)]],
      pbest_pos = [[0], [30 / 7]], pbest_cost = [4, 256 / 49], cost = [4, 256 / 49],
      global_best_cost = Fin 4, gbest_pos = [0], rng = 8, out = []\<rparr>"

section \<open>Properties\<close>

subsection \<open>The list of steps is the nest of loops\<close>

lemma fold_concat_map: "fold f (concat (map g xs)) = fold (\<lambda>x. fold f (g x)) xs"
  by (induction xs) simp_all

lemma fold_init_steps:
  "fold (exec cfg W X k s u) (init_steps pop (k * s)) st = init_swarm cfg W X k s u pop st"
proof -
  have "(\<lambda>i. fold (exec cfg W X k s u) (map (InitDim i) [0..<k * s] @ [InitEval i]))
        = init_particle cfg W X k s u"
    by (rule ext, rule ext) (simp add: init_particle_def fold_map comp_def)
  then show ?thesis
    by (simp add: init_steps_def init_swarm_def fold_concat_map)
qed

lemma fold_round_steps:
  "fold (exec cfg W X k s u) (round_steps pop (k * s) iter) st = iteration cfg W X k s u pop iter st"
proof -
  have "(\<lambda>i. fold (exec cfg W X k s u) (map (UpdateDim i) [0..<k * s] @ [UpdateEval i]))
        = update_particle cfg W X k s u"
    by (rule ext, rule ext) (simp add: update_particle_def fold_map comp_def)
  then show ?thesis
    by (simp add: round_steps_def iteration_def fold_concat_map)
qed

lemma fold_loop_steps:
  "fold (exec cfg W X k s u) (loop_steps pop (k * s) (nat (max_iters cfg))) st
     = pso_loop cfg W X k s u pop st"
proof -
  have "(\<lambda>it. fold (exec cfg W X k s u) (round_steps pop (k * s) it))
        = iteration cfg W X k s u pop"
    by (rule ext, rule ext) (rule fold_round_steps)
  then show ?thesis
    by (simp add: loop_steps_def pso_loop_def fold_concat_map)
qed

lemma fold_steps:
  "fold (exec cfg W X k s u) (steps pop (k * s) (nat (max_iters cfg))) st
     = pso_loop cfg W X k s u pop (init_swarm cfg W X k s u pop st)"
  by (simp add: steps_def fold_init_steps fold_loop_steps)

lemma length_upd2 [simp]: "length (upd2 v i d x) = length v"
  by (simp add: upd2_def)

lemma length_upd2_nth [simp]: "length (upd2 v i d x ! j) = length (v ! j)"
  by (cases "i < length v"; cases "i = j") (simp_all add: upd2_def list_update_beyond)

lemma upd2_nth_same [simp]: "i < length v \<Longrightarrow> upd2 v i d x ! i = (v ! i)[d := x]"
  by (simp add: upd2_def)

lemma upd2_nth_other [simp]: "j \<noteq> i \<Longrightarrow> upd2 v i d x ! j = v ! j"
  by (simp add: upd2_def)

lemma upd2_upd2 [simp]: "upd2 (upd2 v i d x) i d y = upd2 v i d y"
  by (cases "i < length v") (simp_all add: upd2_def list_update_beyond)

lemma init_dim_fields:
  "pos (init_dim cfg u i d st) = upd2 (pos st) i d (lb cfg + (ub cfg - lb cfg) * u (rng st))"
  "vel (init_dim cfg u i d st) = upd2 (vel st) i d
     ((lb cfg + (ub cfg - lb cfg) * u (Suc (rng st))
       - (lb cfg + (ub cfg - lb cfg) * u (Suc (Suc (rng st))))) * (1 / 10))"
  "pbest_pos (init_dim cfg u i d st) = upd2 (pbest_pos st) i d
     (upd2 (pos st) i d (lb cfg + (ub cfg - lb cfg) * u (rng st)) ! i ! d)"
  "pbest_cost (init_dim cfg u i d st) = pbest_cost st"
  "cost (init_dim cfg u i d st) = cost st"
  "global_best_cost (init_dim cfg u i d st) = global_best_cost st"
  "gbest_pos (init_dim cfg u i d st) = gbest_pos st"
  "rng (init_dim cfg u i d st) = rng st + 3"
  "out (init_dim cfg u i d st) = out st"
  by (simp_all add: init_dim_def initDist_def Let_def)

lemma update_dim_fields:
  "vel (update_dim cfg u i d st) = upd2 (vel st) i d
     (inertia cfg * (vel st ! i ! d)
      + c1 cfg * u (rng st) * (pbest_pos st ! i ! d - pos st ! i ! d)
      + c2 cfg * u (Suc (rng st)) * (gbest_pos st ! d - pos st ! i ! d))"
  "pbest_pos (update_dim cfg u i d st) = pbest_pos st"
  "pbest_cost (update_dim cfg u i d st) = pbest_cost st"
  "cost (update_dim cfg u i d st) = cost st"
  "global_best_cost (update_dim cfg u i d st) = global_best_cost st"
  "gbest_pos (update_dim cfg u i d st) = gbest_pos st"
  "rng (update_dim cfg u i d st) = rng st + 2"
  "out (update_dim cfg u i d st) = out st"
  by (simp_all add: update_dim_def unif01_def Let_def)


lemma update_dim_pos_length:
  "length (pos (update_dim cfg u i d st)) = length (pos st)"
  "length (pos (update_dim cfg u i d st) ! j) = length (pos st ! j)"
  by (simp_all add: update_dim_def unif01_def Let_def)

lemma init_eval_fields:
  "pos (init_eval cfg W X k s i st) = pos st"
  "vel (init_eval cfg W X k s i st) = vel st"
  "pbest_pos (init_eval cfg W X k s i st) = pbest_pos st"
  "pbest_cost (init_eval cfg W X k s i st) = (pbest_cost st)[i := eval_cost cfg W X k s (pos st ! i)]"
  "rng (init_eval cfg W X k s i st) = rng st"
  "out (init_eval cfg W X k s i st) = out st"
  by (simp_all add: init_eval_def Let_def)

lemma update_eval_fields:
  "pos (update_eval cfg W X k s i st) = pos st"
  "vel (update_eval cfg W X k s i st) = vel st"
  "cost (update_eval cfg W X k s i st) = (cost st)[i := eval_cost cfg W X k s (pos st ! i)]"
  "rng (update_eval cfg W X k s i st) = rng st"
  "out (update_eval cfg W X k s i st) = out st"
  by (simp_all add: update_eval_def Let_def)

lemma report_fields:
  "pos (report cfg it st) = pos st"
  "vel (report cfg it st) = vel st"
  "pbest_pos (report cfg it st) = pbest_pos st"
  "pbest_cost (report cfg it st) = pbest_cost st"
  "cost (report cfg it st) = cost st"
  "global_best_cost (report cfg it st) = global_best_cost st"
  "gbest_pos (report cfg it st) = gbest_pos st"
  "rng (report cfg it st) = rng st"
  by (simp_all add: report_def)

lemma wf_init_dim: "wf_swarm pop dm st \<Longrightarrow> wf_swarm pop dm (init_dim cfg u i d st)"
  by (simp add: wf_swarm_def init_dim_fields)

lemma wf_update_dim: "wf_swarm pop dm st \<Longrightarrow> wf_swarm pop dm (update_dim cfg u i d st)"
  by (simp add: wf_swarm_def update_dim_fields update_dim_pos_length)

lemma wf_init_eval: "wf_swarm pop dm st \<Longrightarrow> i < pop \<Longrightarrow> wf_swarm pop dm (init_eval cfg W X k s i st)"
  by (simp add: wf_swarm_def init_eval_def Let_def)

lemma wf_update_eval: "wf_swarm pop dm st \<Longrightarrow> i < pop \<Longrightarrow> wf_swarm pop dm (update_eval cfg W X k s i st)"
  by (simp add: wf_swarm_def update_eval_def Let_def nth_list_update)

lemma wf_report: "wf_swarm pop dm st \<Longrightarrow> wf_swarm pop dm (report cfg it st)"
  by (simp add: wf_swarm_def report_fields)

lemma wf_alloc: "wf_swarm pop dm (alloc pop dm)"
  by (simp add: wf_swarm_def alloc_def)

lemma same_params_fill_H: "same_params cfg cfg' \<Longrightarrow> fill_H cfg = fill_H cfg'"
  by (intro ext) (simp add: fill_H_def same_params_def Let_def cong: if_cong)

lemma same_params_eval_cost: "same_params cfg cfg' \<Longrightarrow> eval_cost cfg = eval_cost cfg'"
  by (intro ext) (simp add: eval_cost_def same_params_fill_H)

lemma same_params_init_dim: "same_params cfg cfg' \<Longrightarrow> init_dim cfg = init_dim cfg'"
  by (intro ext) (simp add: init_dim_def initDist_def same_params_def Let_def cong: if_cong)

lemma same_params_update_dim: "same_params cfg cfg' \<Longrightarrow> update_dim cfg = update_dim cfg'"
  by (intro ext) (simp add: update_dim_def same_params_def Let_def cong: if_cong)

lemma same_params_init_eval: "same_params cfg cfg' \<Longrightarrow> init_eval cfg = init_eval cfg'"
  by (intro ext) (simp add: init_eval_def same_params_eval_cost)

lemma same_params_update_eval: "same_params cfg cfg' \<Longrightarrow> update_eval cfg = update_eval cfg'"
  by (intro ext) (simp add: update_eval_def same_params_eval_cost)

lemma same_params_report:
  "same_params cfg cfg' \<Longrightarrow> verbose cfg = verbose cfg' \<Longrightarrow> report cfg = report cfg'"
  by (intro ext) (simp add: report_def same_params_def cong: if_cong)

lemma same_params_exec:
  assumes "same_params cfg cfg'" "verbose cfg = verbose cfg'"
  shows "exec cfg W X k s u ev = exec cfg' W X k s u ev"
  using assms
  by (cases ev)
     (simp_all add: same_params_init_dim same_params_update_dim same_params_init_eval
        same_params_update_eval same_params_report)

lemma fit_run_steps:
  "fit_run mt cfg W_np X_np =
     (if length (shape W_np) \<noteq> 2 \<or> length (shape X_np) \<noteq> 2
      then Inl (RuntimeError ''W and X must be 2-D arrays'')
      else if shape W_np ! 0 \<noteq> shape X_np ! 0
      then Inl (RuntimeError ''W and X must have same number of rows (features)'')
      else Inr (fold (exec cfg (Matrix_Map (buf W_np) (shape W_np ! 0) (shape W_np ! 1))
                        (Matrix_Map (buf X_np) (shape X_np ! 0) (shape X_np ! 1))
                        (shape W_np ! 1) (shape X_np ! 1) (mt (seed cfg)))
                  (steps (effective_pop cfg) (shape W_np ! 1 * shape X_np ! 1) (nat (max_iters cfg)))
                  (alloc (effective_pop cfg) (shape W_np ! 1 * shape X_np ! 1))))"
  by (simp add: fit_run_def Let_def fold_steps)

lemma fit_run_cong:
  assumes "same_params cfg cfg'" "verbose cfg = verbose cfg'" "seed cfg = seed cfg'"
    "effective_pop cfg = effective_pop cfg'"
  shows "fit_run mt cfg W_np X_np = fit_run mt cfg' W_np X_np"
proof -
  have "exec cfg W X k s u = exec cfg' W X k s u" for W X k s u
    using assms(1,2) by (intro ext same_params_exec[THEN fun_cong])
  moreover have "max_iters cfg = max_iters cfg'"
    using assms(1) by (simp add: same_params_def)
  ultimately show ?thesis
    using assms(3,4) by (simp add: fit_run_steps)
qed



text \<open>
  C7. A population below 2 is run as a population of 2: the whole local state at the end
  of the loop (the engine's position and the progress lines included) and the returned
  matrix are those of the same configuration with \<open>population = 2\<close>, and no error is
  raised that \<open>population = 2\<close> does not raise.
\<close>

theorem population_floor:
  "p < 2 \<Longrightarrow>
     fit_run mt (cfg\<lparr>population := p\<rparr>) W_np X_np = fit_run mt (cfg\<lparr>population := 2\<rparr>) W_np X_np
     \<and> fit mt (cfg\<lparr>population := p\<rparr>) W_np X_np = fit mt (cfg\<lparr>population := 2\<rparr>) W_np X_np"
proof -
  assume "p < 2"
  then have "fit_run mt (cfg\<lparr>population := p\<rparr>) W_np X_np
           = fit_run mt (cfg\<lparr>population := 2\<rparr>) W_np X_np"
    by (intro fit_run_cong) (simp_all add: same_params_def effective_pop_def)
  then show ?thesis by (simp add: fit_def)
qed


theorem population_floor_witness:
  "(0::int) < 2 \<and>
   fit (\<lambda>sd n. 1 / 2) (default_config\<lparr>population := 0\<rparr>)
       \<lparr>shape = [1, 1], buf = [1]\<rparr> \<lparr>shape = [1, 1], buf = [2]\<rparr>
   = fit (\<lambda>sd n. 1 / 2) (default_config\<lparr>population := 2\<rparr>)
       \<lparr>shape = [1, 1], buf = [1]\<rparr> \<lparr>shape = [1, 1], buf = [2]\<rparr>"
  using population_floor[of 0 "\<lambda>sd n. 1 / 2" default_config
      "\<lparr>shape = [1, 1], buf = [1]\<rparr>" "\<lparr>shape = [1, 1], buf = [2]\<rparr>"]
  by simp

subsection \<open>Filling a buffer cell by cell\<close>

lemma length_fold_update [simp]:
  "length (fold (\<lambda>i xs. xs[h i := g i]) is xs) = length xs"
  by (induction "is" arbitrary: xs) simp_all

lemma fold_update_row_nth:
  "fold (\<lambda>i xs. xs[off + i := g (off + i)]) [0..<n] xs ! idx
     = (if off \<le> idx \<and> idx < off + n \<and> idx < length xs then g idx else xs ! idx)"
proof (induction n)
  case 0
  then show ?case by auto
next
  case (Suc n)
  show ?case
    by (cases "off + n < length xs") (auto simp: Suc nth_list_update list_update_beyond)
qed

lemma length_fold_update_rows [simp]:
  "length (fold (\<lambda>j xs. fold (\<lambda>i xs. xs[h j i := g j i]) (is j) xs) js xs) = length xs"
  by (induction js arbitrary: xs) simp_all

lemma fold_update_rows_nth:
  "fold (\<lambda>j xs. fold (\<lambda>i xs. xs[j * k + i := g (j * k + i)]) [0..<k] xs) [0..<m] xs ! idx
     = (if idx < m * k \<and> idx < length xs then g idx else xs ! idx)"
proof (induction m)
  case 0
  then show ?case by simp
next
  case (Suc m)
  show ?case
    by (auto simp: Suc fold_update_row_nth)
qed

lemma fold_update_rows:
  assumes "length xs = k * s"
  shows "fold (\<lambda>j xs. fold (\<lambda>i xs. xs[j * k + i := g (j * k + i)]) [0..<k] xs) [0..<s] xs
           = map g [0..<k * s]"
  using assms by (intro nth_equalityI) (simp_all add: fold_update_rows_nth mult.commute)

subsection \<open>The objective in closed form\<close>

lemma fold_set_coeff:
  "fold (\<lambda>i H. set_coeff H i j (v i j)) is M
     = M\<lparr>coef := fold (\<lambda>i xs. xs[j * rows M + i := v i j]) is (coef M)\<rparr>"
  by (induction "is" arbitrary: M) (simp_all add: set_coeff_def)

lemma fold_fold_set_coeff:
  "fold (\<lambda>j H. fold (\<lambda>i H. set_coeff H i j (v i j)) (is j) H) js M
     = M\<lparr>coef := fold (\<lambda>j xs. fold (\<lambda>i xs. xs[j * rows M + i := v i j]) (is j) xs) js (coef M)\<rparr>"
  by (induction js arbitrary: M) (simp_all add: fold_set_coeff)

lemma fill_H_eq:
  "fill_H cfg k s flatH =
     \<lparr>rows = k, cols = s, coef = map (\<lambda>idx. max (lb cfg) (flatH ! idx)) [0..<k * s]\<rparr>"
proof -
  have m: "(if v < l then l else v) = max l v" for v l :: real
    by (simp add: max_def)
  have "fill_H cfg k s flatH =
      (Matrix_Zero k s)\<lparr>coef :=
         fold (\<lambda>j xs. fold (\<lambda>i xs. xs[j * k + i := max (lb cfg) (flatH ! (j * k + i))]) [0..<k] xs)
           [0..<s] (coef (Matrix_Zero k s))\<rparr>"
    unfolding fill_H_def Let_def m
    by (subst fold_fold_set_coeff) (simp add: Matrix_Zero_def)
  also have "\<dots> = \<lparr>rows = k, cols = s, coef = map (\<lambda>idx. max (lb cfg) (flatH ! idx)) [0..<k * s]\<rparr>"
    by (subst fold_update_rows[where s = s]) (simp_all add: Matrix_Zero_def)
  finally show ?thesis .
qed

lemma fill_H_coeff:
  "i < k \<Longrightarrow> j < s \<Longrightarrow> coeff (fill_H cfg k s flatH) i j = max (lb cfg) (flatH ! (j * k + i))"
proof -
  assume "i < k" "j < s"
  then have "j * k + i < k * s"
    by (metis add.commute mult.commute nat_add_left_cancel_less less_le_trans
        mult_Suc_right Suc_leI mult_le_mono2)
  then show ?thesis by (simp add: fill_H_eq coeff_def)
qed

lemma flat_index_less: "i < k \<Longrightarrow> j < s \<Longrightarrow> j * k + i < s * (k::nat)"
proof -
  assume "i < k" "j < s"
  then have "j * k + i < Suc j * k" "Suc j \<le> s" by simp_all
  moreover from this(2) have "Suc j * k \<le> s * k" by (rule mult_le_mono1)
  ultimately show ?thesis by linarith
qed

lemma length_concat_rows [simp]:
  "length (concat (map (\<lambda>j. map (f j) [0..<r]) [0..<c])) = c * r"
  by (induction c) simp_all

lemma concat_rows_nth:
  "i < r \<Longrightarrow> j < c \<Longrightarrow> concat (map (\<lambda>j. map (f j) [0..<r]) [0..<c]) ! (j * r + i) = f j i"
proof (induction c)
  case 0
  then show ?case by simp
next
  case (Suc c)
  show ?case
  proof (cases "j < c")
    case True
    with Suc show ?thesis
      by (simp add: nth_append flat_index_less)
  next
    case False
    with Suc.prems have "j = c" by simp
    with Suc.prems show ?thesis by (simp add: nth_append)
  qed
qed

lemma mat_mul_coeff:
  "i < rows A \<Longrightarrow> j < cols B \<Longrightarrow>
     coeff (mat_mul A B) i j = (\<Sum>l<cols A. coeff A i l * coeff B l j)"
  by (simp add: mat_mul_def coeff_def[of "\<lparr>rows = _, cols = _, coef = _\<rparr>"] concat_rows_nth
      interv_sum_list_conv_sum_set_nat atLeast0LessThan)

lemma mat_mul_dims [simp]:
  "rows (mat_mul A B) = rows A" "cols (mat_mul A B) = cols B"
  "length (coef (mat_mul A B)) = cols B * rows A"
  by (simp_all add: mat_mul_def)

lemma sum_by_columns:
  "sum f {..<s * g} = (\<Sum>j < s. \<Sum>i < g. f (j * g + i))" for f :: "nat \<Rightarrow> real"
proof -
  have "(\<Sum>j < s. \<Sum>i < g. f (j * g + i)) = (\<Sum>j < s. sum f {j * g..<j * g + g})"
  proof (rule sum.cong[OF refl])
    fix j
    have "sum f {0 + j * g..<g + j * g} = (\<Sum>i = 0..<g. f (i + j * g))"
      by (rule sum.shift_bounds_nat_ivl)
    then show "(\<Sum>i < g. f (j * g + i)) = sum f {j * g..<j * g + g}"
      by (simp add: add.commute atLeast0LessThan)
  qed
  also have "\<dots> = sum f {..<s * g}"
    by (rule sum.nat_group)
  finally show ?thesis by simp
qed

lemma squaredNorm_mat_sub:
  assumes "rows A = g" "rows B = g" "length (coef A) = s * g" "length (coef B) = s * g"
  shows "squaredNorm (mat_sub A B) = (\<Sum>j < s. \<Sum>i < g. (coeff A i j - coeff B i j)\<^sup>2)"
proof -
  let ?R = "map2 (-) (coef A) (coef B)"
  have len: "length ?R = s * g" using assms by simp
  have "squaredNorm (mat_sub A B) = (\<Sum>idx = 0..<length ?R. map (\<lambda>x. x * x) ?R ! idx)"
    unfolding squaredNorm_def mat_sub_def
    by (subst sum_list_sum_nth) simp
  also have "\<dots> = sum (\<lambda>idx. (coef A ! idx - coef B ! idx)\<^sup>2) {..<s * g}"
    unfolding len atLeast0LessThan
    by (rule sum.cong[OF refl]) (simp add: assms power2_eq_square)
  also have "\<dots> = (\<Sum>j < s. \<Sum>i < g. (coeff A i j - coeff B i j)\<^sup>2)"
    by (subst sum_by_columns) (simp add: coeff_def assms)
  finally show ?thesis .
qed

lemma eval_cost_nonneg: "0 \<le> eval_cost cfg W X k s flatH"
  by (auto simp: eval_cost_def squaredNorm_def intro!: sum_list_nonneg)

lemma eval_cost_eq:
  assumes "rows W = rows X" "cols W = k" "length (coef X) = s * rows X"
  shows "eval_cost cfg W X k s flatH =
     (\<Sum>j < s. \<Sum>i<rows X.
        (coeff X i j - (\<Sum>l<k. coeff W i l * max (lb cfg) (flatH ! (j * k + l))))\<^sup>2)"
proof -
  let ?H = "fill_H cfg k s flatH"
  have H: "rows ?H = k" "cols ?H = s" by (simp_all add: fill_H_eq)
  have "eval_cost cfg W X k s flatH = squaredNorm (mat_sub X (mat_mul W ?H))"
    by (simp add: eval_cost_def)
  also have "\<dots> = (\<Sum>j < s. \<Sum>i<rows X. (coeff X i j - coeff (mat_mul W ?H) i j)\<^sup>2)"
    by (rule squaredNorm_mat_sub) (simp_all add: assms H)
  also have "\<dots> = (\<Sum>j < s. \<Sum>i<rows X.
        (coeff X i j - (\<Sum>l<k. coeff W i l * max (lb cfg) (flatH ! (j * k + l))))\<^sup>2)"
    by (intro sum.cong refl) (simp add: mat_mul_coeff assms H fill_H_coeff)
  finally show ?thesis .
qed

lemma map_if_update:
  "n < dm \<Longrightarrow> x = f n \<Longrightarrow>
     (map (\<lambda>d. if d < n then f d else g d) [0..<dm])[n := x]
       = map (\<lambda>d. if d < Suc n then f d else g d) [0..<dm]"
  by (auto intro!: nth_equalityI simp: nth_list_update less_Suc_eq)

lemma map_nth_upt: "length xs = dm \<Longrightarrow> map ((!) xs) [0..<dm] = xs"
  using map_nth[of xs] by simp

lemma init_dim_eq:
  "init_dim cfg u i d st =
     st\<lparr>pos := upd2 (pos st) i d (lb cfg + (ub cfg - lb cfg) * u (rng st)),
        vel := upd2 (vel st) i d
          ((lb cfg + (ub cfg - lb cfg) * u (rng st + 1)
            - (lb cfg + (ub cfg - lb cfg) * u (rng st + 2))) * (1 / 10)),
        pbest_pos := upd2 (pbest_pos st) i d
          (upd2 (pos st) i d (lb cfg + (ub cfg - lb cfg) * u (rng st)) ! i ! d),
        rng := rng st + 3\<rparr>"
  by (simp add: init_dim_def initDist_def Let_def)




lemma update_dim_eq:
  assumes "i < length (pos st)" "d < length (pos st ! i)"
    "i < length (vel st)" "d < length (vel st ! i)"
  shows "update_dim cfg u i d st =
     st\<lparr>vel := upd2 (vel st) i d
          (inertia cfg * (vel st ! i ! d)
           + c1 cfg * u (rng st) * (pbest_pos st ! i ! d - pos st ! i ! d)
           + c2 cfg * u (rng st + 1) * (gbest_pos st ! d - pos st ! i ! d)),
        pos := upd2 (pos st) i d
          (min (ub cfg) (max (lb cfg) (pos st ! i ! d +
             (inertia cfg * (vel st ! i ! d)
              + c1 cfg * u (rng st) * (pbest_pos st ! i ! d - pos st ! i ! d)
              + c2 cfg * u (rng st + 1) * (gbest_pos st ! d - pos st ! i ! d))))),
        rng := rng st + 2\<rparr>"
  using assms by (simp add: update_dim_def unif01_def Let_def min_def max_def)

lemma update_dims_0:
  "wf_swarm pop dm st \<Longrightarrow> i < pop \<Longrightarrow> update_dims cfg u dm i 0 st = st"
  by (simp add: update_dims_def wf_swarm_def map_nth_upt)

lemma update_dim_update_dims:
  assumes "wf_swarm pop dm st" "i < pop" "n < dm"
  shows "update_dim cfg u i n (update_dims cfg u dm i n st) = update_dims cfg u dm i (Suc n) st"
proof -
  let ?S = "update_dims cfg u dm i n st"
  have len: "i < length (pos st)" "i < length (vel st)"
    "length (pos st ! i) = dm" "length (vel st ! i) = dm"
    using assms(1,2) by (simp_all add: wf_swarm_def)
  have S: "pos ?S ! i ! n = pos st ! i ! n" "vel ?S ! i ! n = vel st ! i ! n"
    "pbest_pos ?S = pbest_pos st" "gbest_pos ?S = gbest_pos st" "rng ?S = rng st + 2 * n"
    "i < length (pos ?S)" "n < length (pos ?S ! i)" "i < length (vel ?S)" "n < length (vel ?S ! i)"
    using len assms(3) by (simp_all add: update_dims_def)
  have v: "inertia cfg * (vel st ! i ! n)
           + c1 cfg * u (rng st + 2 * n) * (pbest_pos st ! i ! n - pos st ! i ! n)
           + c2 cfg * u (rng st + 2 * n + 1) * (gbest_pos st ! n - pos st ! i ! n)
           = new_vel cfg u st i n"
    by (simp add: new_vel_def)
  have "update_dim cfg u i n ?S =
     ?S\<lparr>vel := upd2 (vel ?S) i n (new_vel cfg u st i n),
        pos := upd2 (pos ?S) i n (new_pos cfg u st i n),
        rng := rng st + 2 * n + 2\<rparr>"
    unfolding update_dim_eq[OF S(6-9)] S(1-5) v new_pos_def ..
  also have "\<dots> = update_dims cfg u dm i (Suc n) st"
    using len assms(3)
    by (simp add: update_dims_def upd2_def map_if_update add.commute[of 2])
  finally show ?thesis .
qed

lemma fold_update_dim:
  assumes "wf_swarm pop dm st" "i < pop" "n \<le> dm"
  shows "fold (update_dim cfg u i) [0..<n] st = update_dims cfg u dm i n st"
  using assms(3)
proof (induction n)
  case 0
  with assms show ?case by (simp add: update_dims_0)
next
  case (Suc n)
  then show ?case
    by (simp add: update_dim_update_dims[OF assms(1,2)])
qed

lemma Matrix_Map_dims:
  assumes "ndarray_ok a" "length (shape a) = 2"
  shows "rows (Matrix_Map (buf a) (shape a ! 0) (shape a ! 1)) = shape a ! 0"
    "cols (Matrix_Map (buf a) (shape a ! 0) (shape a ! 1)) = shape a ! 1"
    "length (coef (Matrix_Map (buf a) (shape a ! 0) (shape a ! 1))) = shape a ! 1 * (shape a ! 0)"
proof -
  from assms(2) obtain g c where s: "shape a = [g, c]"
    by (cases "shape a"; cases "tl (shape a)") auto
  with assms(1) have "length (buf a) = g * c" by (simp add: ndarray_ok_def)
  with s show "rows (Matrix_Map (buf a) (shape a ! 0) (shape a ! 1)) = shape a ! 0"
    "cols (Matrix_Map (buf a) (shape a ! 0) (shape a ! 1)) = shape a ! 1"
    "length (coef (Matrix_Map (buf a) (shape a ! 0) (shape a ! 1))) = shape a ! 1 * (shape a ! 0)"
    by (simp_all add: Matrix_Map_def)
qed

text \<open>
  C9. For a \<open>g \<times> k\<close> matrix \<open>W\<close> and a \<open>g \<times> s\<close> matrix \<open>X\<close> (as \<open>fit\<close> maps them from
  well-formed arrays of equal row count, by \<open>Matrix_Map_dims\<close>), the candidate built by
  \<open>eval_cost\<close> has at row \<open>i\<close>, column \<open>j\<close> the entry \<open>flatH[j * k + i]\<close> raised to \<open>lb\<close>
  when it is below (and left as it is otherwise, also above \<open>ub\<close>); the result is the sum
  over all entries of \<open>X - W * H\<close> of their squares; it is never negative; and it does
  not depend on \<open>ub\<close>.
\<close>

theorem eval_cost_spec:
  assumes "rows W = rows X" "cols W = k" "length (coef X) = s * rows X"
  shows "(\<forall>i<k. \<forall>j < s. coeff (fill_H cfg k s flatH) i j = max (lb cfg) (flatH ! (j * k + i)))
     \<and> eval_cost cfg W X k s flatH =
         (\<Sum>j < s. \<Sum>i<rows X.
            (coeff X i j - (\<Sum>l<k. coeff W i l * coeff (fill_H cfg k s flatH) l j))\<^sup>2)
     \<and> 0 \<le> eval_cost cfg W X k s flatH
     \<and> (\<forall>b. eval_cost (cfg\<lparr>ub := b\<rparr>) W X k s flatH = eval_cost cfg W X k s flatH)"
proof -
  have a: "\<forall>i<k. \<forall>j < s. coeff (fill_H cfg k s flatH) i j = max (lb cfg) (flatH ! (j * k + i))"
    by (simp add: fill_H_coeff)
  have b: "\<forall>b. eval_cost (cfg\<lparr>ub := b\<rparr>) W X k s flatH = eval_cost cfg W X k s flatH"
    by (simp add: eval_cost_def fill_H_eq)
  have c: "0 \<le> eval_cost cfg W X k s flatH"
    by (rule eval_cost_nonneg)
  have d: "eval_cost cfg W X k s flatH =
         (\<Sum>j < s. \<Sum>i<rows X.
            (coeff X i j - (\<Sum>l<k. coeff W i l * coeff (fill_H cfg k s flatH) l j))\<^sup>2)"
    unfolding eval_cost_eq[OF assms]
    by (intro sum.cong refl) (simp add: fill_H_coeff)
  from a b c d show ?thesis by blast
qed

theorem eval_cost_spec_witness:
  "eval_cost default_config \<lparr>rows = 1, cols = 1, coef = [1]\<rparr> \<lparr>rows = 1, cols = 1, coef = [2]\<rparr>
     1 1 [12] = 100
   \<and> coeff (fill_H default_config 1 1 [12]) 0 0 = 12
   \<and> coeff (fill_H default_config 1 1 [-3]) 0 0 = 0"
  using eval_cost_spec[of "\<lparr>rows = 1, cols = 1, coef = [1]\<rparr>" "\<lparr>rows = 1, cols = 1, coef = [2]\<rparr>"
      1 1 default_config "[12]"]
    eval_cost_spec[of "\<lparr>rows = 1, cols = 1, coef = [1]\<rparr>" "\<lparr>rows = 1, cols = 1, coef = [2]\<rparr>"
      1 1 default_config "[-3]"]
  by (simp add: coeff_def default_config_def)

lemma fold_preserves:
  "(\<And>x st. x \<in> set xs \<Longrightarrow> P st \<Longrightarrow> P (f x st)) \<Longrightarrow> P st \<Longrightarrow> P (fold f xs st)"
  by (induction xs arbitrary: st) simp_all

lemma init_steps_ok: "ev \<in> set (init_steps pop dm) \<Longrightarrow> step_ok pop dm ev \<and> \<not> loop_step ev"
  by (auto simp: init_steps_def)

lemma loop_steps_ok: "ev \<in> set (loop_steps pop dm iters) \<Longrightarrow> step_ok pop dm ev \<and> loop_step ev"
  by (auto simp: loop_steps_def round_steps_def)

lemma steps_ok: "ev \<in> set (steps pop dm iters) \<Longrightarrow> step_ok pop dm ev"
  by (auto simp: steps_def dest: init_steps_ok loop_steps_ok)

lemma wf_exec:
  "step_ok pop dm ev \<Longrightarrow> wf_swarm pop dm st \<Longrightarrow> wf_swarm pop dm (exec cfg W X k s u ev st)"
  by (cases ev) (simp_all add: wf_init_dim wf_init_eval wf_update_dim wf_update_eval wf_report)

lemma wf_fold_exec:
  assumes "\<And>ev. ev \<in> set evs \<Longrightarrow> step_ok pop dm ev" "wf_swarm pop dm st"
  shows "wf_swarm pop dm (fold (exec cfg W X k s u) evs st)"
  by (rule fold_preserves[where P = "wf_swarm pop dm"]) (auto intro: wf_exec assms)

lemma wf_state_after: "wf_swarm (effective_pop cfg) (k * s) (state_after cfg W X k s u n)"
  unfolding state_after_def
  by (rule wf_fold_exec) (auto dest: in_set_takeD steps_ok intro: wf_alloc)

lemma wf_init_swarm:
  "wf_swarm pop (k * s) st \<Longrightarrow> wf_swarm pop (k * s) (init_swarm cfg W X k s u pop st)"
  unfolding fold_init_steps[symmetric]
  by (rule wf_fold_exec) (auto dest: init_steps_ok)


lemma state_after_all:
  assumes "length (steps (effective_pop cfg) (k * s) (nat (max_iters cfg))) \<le> n"
  shows "state_after cfg W X k s u n =
     pso_loop cfg W X k s u (effective_pop cfg)
       (init_swarm cfg W X k s u (effective_pop cfg) (alloc (effective_pop cfg) (k * s)))"
  using assms by (simp add: state_after_def fold_steps)

lemma fit_run_run_state:
  "valid_input W_np X_np \<Longrightarrow>
     fit_run mt cfg W_np X_np = Inr (run_state mt cfg W_np X_np (run_length cfg W_np X_np))"
  by (simp add: valid_input_def fit_run_def Let_def run_state_def run_length_def state_after_all)


lemma length_init_steps: "length (init_steps pop dm) = pop * Suc dm"
  by (induction pop) (simp_all add: init_steps_def)

subsection \<open>The global best cost never goes up\<close>

lemma le_inf_refl [simp]: "le_inf a a"
  by (cases a) simp_all

lemma le_inf_trans: "le_inf a b \<Longrightarrow> le_inf b c \<Longrightarrow> le_inf a c"
  by (cases a; cases b; cases c) simp_all

lemma lt_inf_le_inf: "lt_inf f g \<Longrightarrow> le_inf (Fin f) g"
  by (cases g) simp_all

lemma gbc_exec_le:
  "le_inf (global_best_cost (exec cfg W X k s u ev st)) (global_best_cost st)"
  by (cases ev)
     (simp_all add: init_dim_fields update_dim_fields report_fields init_eval_def
        update_eval_def Let_def lt_inf_le_inf)

lemma gbc_fold_le:
  "le_inf (global_best_cost (fold (exec cfg W X k s u) evs st)) (global_best_cost st)"
proof (induction evs arbitrary: st)
  case Nil
  show ?case by simp
next
  case (Cons ev evs)
  show ?case
    using Cons[of "exec cfg W X k s u ev st"] gbc_exec_le[of cfg W X k s u ev st]
    by (auto intro: le_inf_trans)
qed

lemma gbc_state_after_le:
  assumes "m \<le> n"
  shows "le_inf (global_best_cost (state_after cfg W X k s u n))
                (global_best_cost (state_after cfg W X k s u m))"
proof -
  obtain d where n: "n = m + d" using assms by (auto simp: le_iff_add)
  show ?thesis
    unfolding state_after_def n take_add
    by (simp add: gbc_fold_le)
qed

subsection \<open>The box\<close>






subsection \<open>The two bests\<close>










lemma length_init_position [simp]: "length (init_position cfg u dm i) = dm"
  by (simp add: init_position_def)

lemma length_init_velocity [simp]: "length (init_velocity cfg u dm i) = dm"
  by (simp add: init_velocity_def)







subsection \<open>The invariants hold once the swarm is initialised\<close>








subsection \<open>The returned array\<close>

lemma build_H_eq:
  assumes "length gbest = k * s"
  shows "build_H k s gbest = \<lparr>shape = [k, s], buf = gbest\<rparr>"
proof -
  have "fold (\<lambda>j ptrH. fold (\<lambda>i ptrH. ptrH[j * k + i := gbest ! (j * k + i)]) [0..<k] ptrH)
          [0..<s] (replicate (k * s) 0) = map ((!) gbest) [0..<k * s]"
    by (rule fold_update_rows) simp
  with assms show ?thesis
    by (simp add: build_H_def map_nth_upt)
qed

lemma fit_result:
  assumes "valid_input W_np X_np"
  shows "fit mt cfg W_np X_np =
     Inr \<lparr>shape = [shape W_np ! 1, shape X_np ! 1],
          buf = gbest_pos (run_state mt cfg W_np X_np (run_length cfg W_np X_np))\<rparr>"
proof -
  have "length (gbest_pos (run_state mt cfg W_np X_np (run_length cfg W_np X_np)))
      = shape W_np ! 1 * shape X_np ! 1"
    using wf_state_after[where cfg = cfg and k = "shape W_np ! 1" and s = "shape X_np ! 1"]
    by (simp add: run_state_def wf_swarm_def)
  then show ?thesis
    by (simp add: fit_def fit_run_run_state[OF assms] build_H_eq)
qed



lemma valid_input_ex: "valid_input ex_W ex_X"
  by (simp add: valid_input_def ex_W_def ex_X_def)

lemma valid_input_tiny: "valid_input tiny_W tiny_X"
  by (simp add: valid_input_def tiny_W_def tiny_X_def)

text \<open>
  C1. On valid input \<open>fit\<close> returns an array of shape \<open>(k, s)\<close> whose buffer is the
  global best position, cell for cell. The array is C-contiguous, so its entry at row
  \<open>i\<close>, column \<open>j\<close> is cell \<open>i * s + j\<close> of the global best position: this is not the
  cell \<open>j * k + i\<close> that the objective reads as row \<open>i\<close>, column \<open>j\<close> of \<open>H\<close>.
\<close>

theorem fit_result_row_major:
  assumes "valid_input W_np X_np" "i < shape W_np ! 1" "j < shape X_np ! 1"
  shows "\<exists>H. fit mt cfg W_np X_np = Inr H \<and> shape H = [shape W_np ! 1, shape X_np ! 1] \<and>
           buf H = gbest_pos (run_state mt cfg W_np X_np (run_length cfg W_np X_np)) \<and>
           at2 H i j = gbest_pos (run_state mt cfg W_np X_np (run_length cfg W_np X_np))
                         ! (i * (shape X_np ! 1) + j)"
  by (simp add: fit_result[OF assms(1)] at2_def)

text \<open>
  The instance \<open>W\<close> of shape \<open>1 \<times> 2\<close>, \<open>X\<close> of shape \<open>1 \<times> 3\<close> (\<open>k = 2\<close>, \<open>s = 3\<close>), no
  iteration: row 0, column 1 of the returned array is cell 1 of the global best, \<open>30 / 7\<close>,
  whereas cell \<open>1 * 2 + 0 = 2\<close>, which the objective reads as row 0, column 1 of \<open>H\<close>, is
  \<open>60 / 7\<close>.
\<close>

theorem fit_result_row_major_witness:
  "fit ex_mt (ex_cfg\<lparr>max_iters := 0\<rparr>) ex_W ex_X
     = Inr \<lparr>shape = [2, 3], buf = [0, 30 / 7, 60 / 7, 20 / 7, 50 / 7, 10 / 7]\<rparr>
   \<and> gbest_pos (run_state ex_mt (ex_cfg\<lparr>max_iters := 0\<rparr>) ex_W ex_X
         (run_length (ex_cfg\<lparr>max_iters := 0\<rparr>) ex_W ex_X))
     = [0, 30 / 7, 60 / 7, 20 / 7, 50 / 7, 10 / 7]
   \<and> at2 \<lparr>shape = [2, 3], buf = [0, 30 / 7, 60 / 7, 20 / 7, 50 / 7, 10 / 7]\<rparr> 0 1 = 30 / 7
   \<and> [0, 30 / 7, 60 / 7, 20 / 7, 50 / 7, 10 / 7] ! (1 * 2 + 0) = (60 / 7 :: real)
   \<and> coeff (fill_H ex_cfg 2 3 [0, 30 / 7, 60 / 7, 20 / 7, 50 / 7, 10 / 7]) 0 1 = 60 / 7"
proof -
  let ?cfg = "ex_cfg\<lparr>max_iters := 0\<rparr>"
  have f: "fit ex_mt ?cfg ex_W ex_X
     = Inr \<lparr>shape = [2, 3], buf = [0, 30 / 7, 60 / 7, 20 / 7, 50 / 7, 10 / 7]\<rparr>"
    by code_simp
  have c: "coeff (fill_H ex_cfg 2 3 [0, 30 / 7, 60 / 7, 20 / 7, 50 / 7, 10 / 7]) 0 1 = 60 / 7"
    by code_simp
  have ij: "(0::nat) < shape ex_W ! 1" "(1::nat) < shape ex_X ! 1"
    by (simp_all add: ex_W_def ex_X_def)
  from fit_result_row_major[OF valid_input_ex ij, of ex_mt ?cfg]
  obtain H where H: "fit ex_mt ?cfg ex_W ex_X = Inr H"
    "buf H = gbest_pos (run_state ex_mt ?cfg ex_W ex_X (run_length ?cfg ex_W ex_X))"
    by blast
  with f have g: "gbest_pos (run_state ex_mt ?cfg ex_W ex_X (run_length ?cfg ex_W ex_X))
      = [0, 30 / 7, 60 / 7, 20 / 7, 50 / 7, 10 / 7]"
    by simp
  show ?thesis
    using f c g by (simp add: at2_def)
qed

text \<open>
  C4. Along the steps of one run the global best cost never increases: its value after
  \<open>n\<close> steps is at most its value after \<open>m \<le> n\<close> steps. The run of \<open>fit\<close> on valid input
  ends in the state after all \<open>run_length\<close> steps.
\<close>

theorem global_best_cost_nonincreasing:
  "(valid_input W_np X_np \<longrightarrow>
      fit_run mt cfg W_np X_np = Inr (run_state mt cfg W_np X_np (run_length cfg W_np X_np)))
   \<and> (\<forall>m n. m \<le> n \<longrightarrow>
         le_inf (global_best_cost (run_state mt cfg W_np X_np n))
                (global_best_cost (run_state mt cfg W_np X_np m)))"
  by (simp add: fit_run_run_state run_state_def gbc_state_after_le)

theorem global_best_cost_nonincreasing_witness:
  "fit_run ex_mt ex_cfg tiny_W tiny_X = Inr (run_state ex_mt ex_cfg tiny_W tiny_X 9)
   \<and> global_best_cost (run_state ex_mt ex_cfg tiny_W tiny_X 4) = Fin 4
   \<and> global_best_cost (run_state ex_mt ex_cfg tiny_W tiny_X 9) = Fin (2968729 / 24010000)
   \<and> le_inf (global_best_cost (run_state ex_mt ex_cfg tiny_W tiny_X 9))
            (global_best_cost (run_state ex_mt ex_cfg tiny_W tiny_X 4))"
proof -
  have l: "run_length ex_cfg tiny_W tiny_X = 9" by code_simp
  have a: "global_best_cost (run_state ex_mt ex_cfg tiny_W tiny_X 4) = Fin 4"
    by code_simp
  have b: "global_best_cost (run_state ex_mt ex_cfg tiny_W tiny_X 9) = Fin (2968729 / 24010000)"
    by code_simp
  from global_best_cost_nonincreasing[where W_np = tiny_W and X_np = tiny_X and mt = ex_mt
      and cfg = ex_cfg] valid_input_tiny l
  have "fit_run ex_mt ex_cfg tiny_W tiny_X = Inr (run_state ex_mt ex_cfg tiny_W tiny_X 9)"
    "le_inf (global_best_cost (run_state ex_mt ex_cfg tiny_W tiny_X 9))
            (global_best_cost (run_state ex_mt ex_cfg tiny_W tiny_X 4))"
    by simp_all
  with a b show ?thesis by simp
qed





subsection \<open>A run without iterations\<close>





subsection \<open>The progress lines do not feed back\<close>

lemma init_dim_out: "init_dim cfg u i d (st\<lparr>out := l\<rparr>) = (init_dim cfg u i d st)\<lparr>out := l\<rparr>"
  by (simp add: init_dim_eq)

lemma update_dim_pos_gen:
  "pos (update_dim cfg u i d st) =
     (let v = inertia cfg * (vel st ! i ! d)
              + c1 cfg * u (rng st) * (pbest_pos st ! i ! d - pos st ! i ! d)
              + c2 cfg * u (Suc (rng st)) * (gbest_pos st ! d - pos st ! i ! d);
          p4 = upd2 (pos st) i d (pos st ! i ! d + upd2 (vel st) i d v ! i ! d);
          p5 = (if p4 ! i ! d < lb cfg then upd2 p4 i d (lb cfg) else p4)
      in if p5 ! i ! d > ub cfg then upd2 p5 i d (ub cfg) else p5)"
  by (simp add: update_dim_def unif01_def Let_def)

lemma update_dim_out:
  "update_dim cfg u i d (st\<lparr>out := l\<rparr>) = (update_dim cfg u i d st)\<lparr>out := l\<rparr>"
  by (rule swarm.equality) (simp_all add: update_dim_fields update_dim_pos_gen)

lemma init_eval_out:
  "init_eval cfg W X k s i (st\<lparr>out := l\<rparr>) = (init_eval cfg W X k s i st)\<lparr>out := l\<rparr>"
  by (simp add: init_eval_def Let_def)

lemma update_eval_out:
  "update_eval cfg W X k s i (st\<lparr>out := l\<rparr>) = (update_eval cfg W X k s i st)\<lparr>out := l\<rparr>"
  by (simp add: update_eval_def Let_def)

lemma mute_report: "mute (report cfg it st) = mute st"
  by (simp add: mute_def report_def)

lemma mute_exec:
  assumes "same_params cfg cfg'"
  shows "mute (exec cfg W X k s u ev st) = mute (exec cfg' W X k s u ev (mute st))"
proof (cases ev)
  case (Report it)
  then show ?thesis by (simp add: mute_report) (simp add: mute_def)
qed (simp_all add: mute_def init_dim_out update_dim_out init_eval_out update_eval_out
      same_params_init_dim[OF assms] same_params_update_dim[OF assms]
      same_params_init_eval[OF assms] same_params_update_eval[OF assms])

lemma mute_fold_exec:
  assumes "same_params cfg cfg'"
  shows "mute st = mute st' \<Longrightarrow>
     mute (fold (exec cfg W X k s u) evs st) = mute (fold (exec cfg' W X k s u) evs st')"
proof (induction evs arbitrary: st st')
  case Nil
  then show ?case by simp
next
  case (Cons ev evs)
  have "mute (exec cfg W X k s u ev st) = mute (exec cfg' W X k s u ev (mute st))"
    by (rule mute_exec[OF assms])
  also have "\<dots> = mute (exec cfg' W X k s u ev (mute st'))"
    by (simp only: Cons.prems)
  also have "\<dots> = mute (exec cfg' W X k s u ev st')"
    using mute_exec[of cfg' cfg' W X k s u ev st'] by (simp add: same_params_def)
  finally show ?case
    by (simp add: Cons.IH)
qed

lemma mute_state_after:
  assumes "same_params cfg cfg'" "effective_pop cfg = effective_pop cfg'"
  shows "mute (state_after cfg W X k s u n) = mute (state_after cfg' W X k s u n)"
proof -
  have m: "max_iters cfg = max_iters cfg'" using assms(1) by (simp add: same_params_def)
  show ?thesis
    unfolding state_after_def assms(2) m
    by (rule mute_fold_exec[OF assms(1) refl])
qed

lemma gbest_pos_mute: "gbest_pos (mute st) = gbest_pos st"
  by (simp add: mute_def)

text \<open>
  C2. Two \<open>PSO\<close> objects built from configurations with the same nonzero seed and the
  same population, iteration count, coefficients and bounds (the clock values at
  construction and the \<open>verbose\<close> flags may differ) return the same result on the same
  \<open>W\<close> and \<open>X\<close>, and after any number of steps their local states agree on everything but
  the progress lines printed so far. The same holds for two default-constructed
  objects (seeded from the clock) whose seed is then set to the same value.
\<close>

theorem fit_deterministic:
  assumes "seed cfg = seed cfg'" "seed cfg \<noteq> 0" "population cfg = population cfg'"
    "max_iters cfg = max_iters cfg'" "inertia cfg = inertia cfg'"
    "c1 cfg = c1 cfg'" "c2 cfg = c2 cfg'" "lb cfg = lb cfg'" "ub cfg = ub cfg'"
  shows "fit mt (PSO_of_config cfg clock) W_np X_np = fit mt (PSO_of_config cfg' clock') W_np X_np
     \<and> (\<forall>n. mute (run_state mt (PSO_of_config cfg clock) W_np X_np n)
            = mute (run_state mt (PSO_of_config cfg' clock') W_np X_np n))
     \<and> fit mt (set_seed (seed cfg) (PSO_default clock)) W_np X_np
         = fit mt (set_seed (seed cfg) (PSO_default clock')) W_np X_np"
proof -
  have c: "PSO_of_config cfg clock = cfg" "PSO_of_config cfg' clock' = cfg'"
    using assms(1,2) by (simp_all add: PSO_of_config_def)
  have sp: "same_params cfg cfg'"
    using assms by (simp add: same_params_def)
  have ep: "effective_pop cfg = effective_pop cfg'"
    using assms(3) by (simp add: effective_pop_def)
  have m: "mute (run_state mt cfg W_np X_np n) = mute (run_state mt cfg' W_np X_np n)" for n
    unfolding run_state_def assms(1) by (rule mute_state_after[OF sp ep])
  have rl: "run_length cfg W_np X_np = run_length cfg' W_np X_np"
    using assms(4) ep by (simp add: run_length_def)
  have "fit mt cfg W_np X_np = fit mt cfg' W_np X_np"
  proof (cases "valid_input W_np X_np")
    case True
    have "gbest_pos (run_state mt cfg W_np X_np (run_length cfg W_np X_np))
        = gbest_pos (run_state mt cfg' W_np X_np (run_length cfg' W_np X_np))"
      using m[of "run_length cfg W_np X_np"] gbest_pos_mute rl by metis
    then show ?thesis by (simp add: fit_result[OF True])
  next
    case False
    then show ?thesis
      by (auto simp: fit_def fit_run_def valid_input_def)
  qed
  moreover have "set_seed (seed cfg) (PSO_default clock) = set_seed (seed cfg) (PSO_default clock')"
    by (simp add: set_seed_def PSO_default_def)
  ultimately show ?thesis unfolding c using m by simp
qed

theorem fit_deterministic_witness:
  "seed ex_cfg = seed (ex_cfg\<lparr>verbose := True\<rparr>) \<and> seed ex_cfg \<noteq> 0
   \<and> fit ex_mt (PSO_of_config ex_cfg 5) tiny_W tiny_X
       = Inr \<lparr>shape = [1, 1], buf = [11523 / 4900]\<rparr>
   \<and> fit ex_mt (PSO_of_config (ex_cfg\<lparr>verbose := True\<rparr>) 9) tiny_W tiny_X
       = Inr \<lparr>shape = [1, 1], buf = [11523 / 4900]\<rparr>
   \<and> map_sum id out (fit_run ex_mt (PSO_of_config ex_cfg 5) tiny_W tiny_X) = Inr []
   \<and> map_sum id out (fit_run ex_mt (PSO_of_config (ex_cfg\<lparr>verbose := True\<rparr>) 9) tiny_W tiny_X)
       = Inr [(0, Fin (2968729 / 24010000))]"
proof -
  let ?cfg' = "ex_cfg\<lparr>verbose := True\<rparr>"
  have s: "seed ex_cfg \<noteq> 0" by (simp add: ex_cfg_def)
  have p: "PSO_of_config ex_cfg 5 = ex_cfg" "PSO_of_config ?cfg' 9 = ?cfg'"
    using s by (simp_all add: PSO_of_config_def)
  have a: "fit ex_mt ex_cfg tiny_W tiny_X = Inr \<lparr>shape = [1, 1], buf = [11523 / 4900]\<rparr>"
    by code_simp
  have b: "map_sum id out (fit_run ex_mt ex_cfg tiny_W tiny_X) = Inr []"
    by code_simp
  have c: "map_sum id out (fit_run ex_mt ?cfg' tiny_W tiny_X)
       = Inr [(0, Fin (2968729 / 24010000))]"
    by code_simp
  from fit_deterministic[of ex_cfg ?cfg' ex_mt 5 tiny_W tiny_X 9] s a b c
  show ?thesis unfolding p by simp
qed

subsection \<open>The loop body is the update rule\<close>

lemma update_eval_track_best: "update_eval cfg W X k s i st = track_best cfg W X k s i st"
  by (rule swarm.equality) (simp_all add: update_eval_def track_best_def Let_def)

lemma wf_update_particle:
  assumes "wf_swarm pop (k * s) st" "i < pop"
  shows "wf_swarm pop (k * s) (update_particle cfg W X k s u i st)"
  unfolding update_particle_def
  by (intro wf_update_eval fold_preserves[where P = "wf_swarm pop (k * s)"] wf_update_dim assms)

lemma update_particle_spec:
  assumes "wf_swarm pop (k * s) st" "i < pop"
  shows "update_particle cfg W X k s u i st = spec_particle cfg W X k s u i st"
  by (simp add: update_particle_def spec_particle_def fold_update_dim[OF assms]
      update_eval_track_best)

lemma spec_round_snoc:
  "spec_round cfg W X k s u (is @ [j]) st
     = spec_particle cfg W X k s u j (spec_round cfg W X k s u is st)"
  by (induction "is" arbitrary: st) simp_all

lemma fold_update_particle_spec:
  assumes "wf_swarm pop (k * s) st" "n \<le> pop"
  shows "fold (update_particle cfg W X k s u) [0..<n] st = spec_round cfg W X k s u [0..<n] st
       \<and> wf_swarm pop (k * s) (spec_round cfg W X k s u [0..<n] st)"
  using assms(2)
proof (induction n)
  case 0
  with assms(1) show ?case by simp
next
  case (Suc n)
  then have IH: "fold (update_particle cfg W X k s u) [0..<n] st = spec_round cfg W X k s u [0..<n] st"
    "wf_swarm pop (k * s) (spec_round cfg W X k s u [0..<n] st)" and n: "n < pop"
    by simp_all
  have "update_particle cfg W X k s u n (spec_round cfg W X k s u [0..<n] st)
      = spec_particle cfg W X k s u n (spec_round cfg W X k s u [0..<n] st)"
    by (rule update_particle_spec[OF IH(2) n])
  moreover have "wf_swarm pop (k * s)
      (update_particle cfg W X k s u n (spec_round cfg W X k s u [0..<n] st))"
    by (rule wf_update_particle[OF IH(2) n])
  ultimately show ?case
    by (simp add: IH(1) spec_round_snoc)
qed

lemma vel_spec_particle:
  assumes "wf_swarm pop (k * s) st" "j < pop" "d < k * s"
  shows "vel (spec_particle cfg W X k s u j st) ! j ! d = new_vel cfg u st j d"
    "pos (spec_particle cfg W X k s u j st) ! j ! d = new_pos cfg u st j d"
    "rng (spec_particle cfg W X k s u j st) = rng st + 2 * (k * s)"
  using assms by (simp_all add: spec_particle_def track_best_def update_dims_def Let_def wf_swarm_def)

text \<open>
  C3. In a state with the vectors allocated, for a particle \<open>i\<close> of the swarm:
  \<^item> the body of the loop over \<open>d\<close> consumes two draws \<open>r1\<close>, \<open>r2\<close>, sets \<open>vel[i][d]\<close> by the
    update rule, adds it to \<open>pos[i][d]\<close> and clamps the sum at \<open>lb\<close>, then at \<open>ub\<close>;
  \<^item> \<open>update_particle\<close> (all dimensions in order, then the evaluation) is \<open>spec_particle\<close>:
    dimension \<open>d\<close> gets \<open>new_vel\<close> and \<open>new_pos\<close> with the draws \<open>2 * d\<close> and \<open>2 * d + 1\<close> of
    this particle's round, then \<open>track_best\<close> evaluates and updates the two bests, and
    \<open>2 * dim\<close> draws are consumed;
  \<^item> an iteration is the round over the particles in scan order followed by the progress
    line, and the velocity of particle \<open>j\<close> is computed from the state left by the
    particles before it in the same round, its global best included.
\<close>

theorem update_rule:
  assumes "wf_swarm pop (k * s) st" "i < pop"
  shows "(\<forall>d<k * s. update_dim cfg u i d st =
            st\<lparr>vel := upd2 (vel st) i d
                   (inertia cfg * (vel st ! i ! d)
                    + c1 cfg * u (rng st) * (pbest_pos st ! i ! d - pos st ! i ! d)
                    + c2 cfg * u (rng st + 1) * (gbest_pos st ! d - pos st ! i ! d)),
               pos := upd2 (pos st) i d
                   (min (ub cfg) (max (lb cfg) (pos st ! i ! d +
                      (inertia cfg * (vel st ! i ! d)
                       + c1 cfg * u (rng st) * (pbest_pos st ! i ! d - pos st ! i ! d)
                       + c2 cfg * u (rng st + 1) * (gbest_pos st ! d - pos st ! i ! d))))),
               rng := rng st + 2\<rparr>)
     \<and> update_particle cfg W X k s u i st = spec_particle cfg W X k s u i st
     \<and> (\<forall>d<k * s. vel (update_particle cfg W X k s u i st) ! i ! d = new_vel cfg u st i d
                  \<and> pos (update_particle cfg W X k s u i st) ! i ! d = new_pos cfg u st i d)
     \<and> rng (update_particle cfg W X k s u i st) = rng st + 2 * (k * s)
     \<and> iteration cfg W X k s u pop iter st
         = report cfg iter (spec_round cfg W X k s u [0..<pop] st)
     \<and> (\<forall>j<pop. \<forall>d<k * s.
           vel (spec_round cfg W X k s u [0..<Suc j] st) ! j ! d
             = new_vel cfg u (spec_round cfg W X k s u [0..<j] st) j d)"
proof -
  have len: "i < length (pos st)" "i < length (vel st)"
    "length (pos st ! i) = k * s" "length (vel st ! i) = k * s"
    using assms by (simp_all add: wf_swarm_def)
  have a: "\<forall>d<k * s. update_dim cfg u i d st =
            st\<lparr>vel := upd2 (vel st) i d
                   (inertia cfg * (vel st ! i ! d)
                    + c1 cfg * u (rng st) * (pbest_pos st ! i ! d - pos st ! i ! d)
                    + c2 cfg * u (rng st + 1) * (gbest_pos st ! d - pos st ! i ! d)),
               pos := upd2 (pos st) i d
                   (min (ub cfg) (max (lb cfg) (pos st ! i ! d +
                      (inertia cfg * (vel st ! i ! d)
                       + c1 cfg * u (rng st) * (pbest_pos st ! i ! d - pos st ! i ! d)
                       + c2 cfg * u (rng st + 1) * (gbest_pos st ! d - pos st ! i ! d))))),
               rng := rng st + 2\<rparr>"
  proof (intro allI impI)
    fix d assume "d < k * s"
    with len have "i < length (pos st)" "d < length (pos st ! i)"
      "i < length (vel st)" "d < length (vel st ! i)"
      by simp_all
    then show "update_dim cfg u i d st =
            st\<lparr>vel := upd2 (vel st) i d
                   (inertia cfg * (vel st ! i ! d)
                    + c1 cfg * u (rng st) * (pbest_pos st ! i ! d - pos st ! i ! d)
                    + c2 cfg * u (rng st + 1) * (gbest_pos st ! d - pos st ! i ! d)),
               pos := upd2 (pos st) i d
                   (min (ub cfg) (max (lb cfg) (pos st ! i ! d +
                      (inertia cfg * (vel st ! i ! d)
                       + c1 cfg * u (rng st) * (pbest_pos st ! i ! d - pos st ! i ! d)
                       + c2 cfg * u (rng st + 1) * (gbest_pos st ! d - pos st ! i ! d))))),
               rng := rng st + 2\<rparr>"
      by (rule update_dim_eq)
  qed
  have b: "update_particle cfg W X k s u i st = spec_particle cfg W X k s u i st"
    by (rule update_particle_spec[OF assms])
  have c: "\<forall>d<k * s. vel (update_particle cfg W X k s u i st) ! i ! d = new_vel cfg u st i d
                  \<and> pos (update_particle cfg W X k s u i st) ! i ! d = new_pos cfg u st i d"
    unfolding b using vel_spec_particle(1,2)[OF assms] by blast
  have d: "rng (update_particle cfg W X k s u i st) = rng st + 2 * (k * s)"
    unfolding b using assms
    by (simp add: spec_particle_def track_best_def update_dims_def Let_def)
  have e: "iteration cfg W X k s u pop iter st
         = report cfg iter (spec_round cfg W X k s u [0..<pop] st)"
    using fold_update_particle_spec[OF assms(1) order_refl] by (simp add: iteration_def)
  have f: "\<forall>j<pop. \<forall>d<k * s.
           vel (spec_round cfg W X k s u [0..<Suc j] st) ! j ! d
             = new_vel cfg u (spec_round cfg W X k s u [0..<j] st) j d"
  proof (intro allI impI)
    fix j d assume j: "j < pop" and d: "d < k * s"
    have wf: "wf_swarm pop (k * s) (spec_round cfg W X k s u [0..<j] st)"
      using fold_update_particle_spec[OF assms(1), of j] j by simp
    show "vel (spec_round cfg W X k s u [0..<Suc j] st) ! j ! d
             = new_vel cfg u (spec_round cfg W X k s u [0..<j] st) j d"
      using vel_spec_particle(1)[OF wf j d] by (simp add: spec_round_snoc)
  qed
  from a b c d e f show ?thesis by blast
qed

theorem update_rule_witness:
  "wf_swarm 2 (1 * 1) ex_state \<and> (1::nat) < 2
   \<and> run_state ex_mt ex_cfg tiny_W tiny_X 6 = ex_state
   \<and> update_particle ex_cfg (Matrix_Map [1] 1 1) (Matrix_Map [2] 1 1) 1 1 (ex_mt 1) 1 ex_state
       = \<lparr>pos = [[0], [11523 / 4900]], vel = [[- (729 / 7000)], [- (9477 / 4900)]],
          pbest_pos = [[0], [11523 / 4900]], pbest_cost = [4, 2968729 / 24010000],
          cost = [4, 2968729 / 24010000], global_best_cost = Fin (2968729 / 24010000),
          gbest_pos = [11523 / 4900], rng = 10, out = []\<rparr>
   \<and> new_vel ex_cfg (ex_mt 1) ex_state 1 0 = - (9477 / 4900)
   \<and> new_pos ex_cfg (ex_mt 1) ex_state 1 0 = 11523 / 4900"
proof -
  let ?W = "Matrix_Map [1] 1 1" and ?X = "Matrix_Map [2] 1 1"
  have wf: "wf_swarm 2 (1 * 1) ex_state"
    by (simp add: wf_swarm_def ex_state_def less_2_cases_iff)
  have i: "(1::nat) < 2" by simp
  have r: "run_state ex_mt ex_cfg tiny_W tiny_X 6 = ex_state"
    by code_simp
  have p: "update_particle ex_cfg ?W ?X 1 1 (ex_mt 1) 1 ex_state
       = \<lparr>pos = [[0], [11523 / 4900]], vel = [[- (729 / 7000)], [- (9477 / 4900)]],
          pbest_pos = [[0], [11523 / 4900]], pbest_cost = [4, 2968729 / 24010000],
          cost = [4, 2968729 / 24010000], global_best_cost = Fin (2968729 / 24010000),
          gbest_pos = [11523 / 4900], rng = 10, out = []\<rparr>"
    by code_simp
  from update_rule[OF wf i, where cfg = ex_cfg and W = ?W and X = ?X and u = "ex_mt 1"]
  have "\<forall>d<1 * 1.
      vel (update_particle ex_cfg ?W ?X 1 1 (ex_mt 1) 1 ex_state) ! 1 ! d
          = new_vel ex_cfg (ex_mt 1) ex_state 1 d \<and>
      pos (update_particle ex_cfg ?W ?X 1 1 (ex_mt 1) 1 ex_state) ! 1 ! d
          = new_pos ex_cfg (ex_mt 1) ex_state 1 d"
    by blast
  then have "vel (update_particle ex_cfg ?W ?X 1 1 (ex_mt 1) 1 ex_state) ! 1 ! 0
          = new_vel ex_cfg (ex_mt 1) ex_state 1 0"
    "pos (update_particle ex_cfg ?W ?X 1 1 (ex_mt 1) 1 ex_state) ! 1 ! 0
          = new_pos ex_cfg (ex_mt 1) ex_state 1 0"
    by simp_all
  then have "new_vel ex_cfg (ex_mt 1) ex_state 1 0 = - (9477 / 4900)"
    "new_pos ex_cfg (ex_mt 1) ex_state 1 0 = 11523 / 4900"
    unfolding p by simp_all
  with wf i r p show ?thesis by simp
qed

end
